theory Spec2Isabelle
  imports Main
begin

section \<open>Python values used by the handlers\<close>

text \<open>
  The handlers read their identifiers from form fields, query parameters and the string
  fields of a JSON object.  A field that is absent reads as Python's \<open>None\<close>, so every
  identifier is an optional string: \<open>None\<close> for an absent field, \<open>Some s\<close> for the
  string \<open>s\<close> (which may be empty).  JSON values that are not strings, and bodies that
  are not objects, are not modelled.  \<open>truthy\<close> is Python's truth test on such a
  value, \<open>lstrip_plus\<close> is \<^verbatim>\<open>s.lstrip('+')\<close> (it removes every leading plus sign),
  \<open>py_or\<close> is the operator \<^verbatim>\<open>or\<close> and \<open>py_str\<close> is the text an f-string inserts
  for the value.
\<close>

definition truthy :: "string option \<Rightarrow> bool" where
  "truthy v = (case v of None \<Rightarrow> False | Some s \<Rightarrow> s \<noteq> [])"

definition lstrip_plus :: "string \<Rightarrow> string" where
  "lstrip_plus s = dropWhile (\<lambda>c. c = CHR ''+'') s"

definition py_or :: "string option \<Rightarrow> string option \<Rightarrow> string option" where
  "py_or a b = (if truthy a then a else b)"

definition py_str :: "string option \<Rightarrow> string" where
  "py_str v = (case v of None \<Rightarrow> ''None'' | Some s \<Rightarrow> s)"

text \<open>
  Exceptions are values.  An \<open>HTTPException\<close> carries its status code and its detail; a
  detail is a literal text or an f-string that ends with \<^verbatim>\<open>str(e)\<close> of a caught
  exception \<open>e\<close>.  \<open>AttributeError\<close> is what a method call on \<open>None\<close> raises, \<open>KeyError\<close>
  what indexing a dictionary at a missing key raises, \<open>TypeError\<close> what using an
  unhashable value as a dictionary key raises, and \<open>Raised\<close> stands for any exception
  raised by a collaborator outside this repository.
\<close>

datatype exn =
    HTTPException nat detail
  | AttributeError
  | KeyError string
  | TypeError
  | Raised string
and detail =
    Lit string
  | FStr string exn

section \<open>The call mapping (plivo\_handlers.py)\<close>

text \<open>
  \<open>call_to_sip_mapping\<close> is a Python dictionary.  Its iteration order is the order in
  which keys were first inserted, and the last lookup step iterates over it, so it is an
  association list: storing under a key that exists replaces the value in place, storing
  under a new key appends.  A record holds the SIP URI and the phone number it was stored
  with; the inbound flow stores the From field as it read it, so the phone number of a
  record can be \<open>None\<close>.
\<close>

record call_record =
  sip_uri :: string
  phone_number :: "string option"

type_synonym call_mapping = "(string \<times> call_record) list"

fun store_call_mapping :: "call_mapping \<Rightarrow> string \<Rightarrow> string \<Rightarrow> string option \<Rightarrow> call_mapping" where
  "store_call_mapping [] call_id sip phone =
     [(call_id, \<lparr>sip_uri = sip, phone_number = phone\<rparr>)]"
| "store_call_mapping ((k, v) # m) call_id sip phone =
     (if k = call_id then (call_id, \<lparr>sip_uri = sip, phone_number = phone\<rparr>) # m
      else (k, v) # store_call_mapping m call_id sip phone)"

definition get_call_mapping :: "call_mapping \<Rightarrow> string option \<Rightarrow> call_record option" where
  "get_call_mapping m call_uuid = (case call_uuid of None \<Rightarrow> None | Some k \<Rightarrow> map_of m k)"

text \<open>
  The test of the last-resort loop,
  \<^verbatim>\<open>stored_phone == to_number or stored_phone == to_number.lstrip('+') or stored_phone.lstrip('+') == to_number\<close>,
  evaluated left to right: \<open>lstrip\<close> on \<open>None\<close> raises.
\<close>

definition phone_matches :: "string option \<Rightarrow> string option \<Rightarrow> exn + bool" where
  "phone_matches stored_phone to_number =
     (if stored_phone = to_number then Inr True
      else case to_number of
        None \<Rightarrow> Inl AttributeError
      | Some t \<Rightarrow>
          if stored_phone = Some (lstrip_plus t) then Inr True
          else case stored_phone of
            None \<Rightarrow> Inl AttributeError
          | Some s \<Rightarrow> Inr (lstrip_plus s = t))"

fun search_by_phone :: "call_mapping \<Rightarrow> string option \<Rightarrow> exn + call_record option" where
  "search_by_phone [] to_number = Inr None"
| "search_by_phone ((key, value) # rest) to_number =
     (case phone_matches (phone_number value) to_number of
        Inl e \<Rightarrow> Inl e
      | Inr True \<Rightarrow> Inr (Some value)
      | Inr False \<Rightarrow> search_by_phone rest to_number)"

text \<open>
  The lookup of \<open>plivo_answer_handler\<close> (the statements between reading the request and
  building the document): the variable \<open>mapping\<close> is assigned step by step.
\<close>

definition resolve ::
  "call_mapping \<Rightarrow> string option \<Rightarrow> string option \<Rightarrow> string option \<Rightarrow> exn + call_record option" where
  "resolve m call_id call_uuid to_number =
     (let mapping0 = None;
          mapping1 = (if truthy call_id then get_call_mapping m call_id else mapping0);
          mapping2 = (if mapping1 = None \<and> truthy call_uuid
                      then get_call_mapping m call_uuid else mapping1);
          mapping3 = (if mapping2 = None \<and> truthy to_number
                      then (let by_number = get_call_mapping m to_number in
                            if by_number = None
                            then get_call_mapping m (map_option lstrip_plus to_number)
                            else by_number)
                      else mapping2)
      in if mapping3 = None then search_by_phone m to_number else Inr mapping3)"

section \<open>Requests, responses and the signaling documents\<close>

record request =
  form :: "exn + (string \<rightharpoonup> string)"
  query_params :: "string \<rightharpoonup> string"
  json :: "exn + (string \<rightharpoonup> string)"

datatype response =
    PlainTextResponse string string
  | JSONResponse "(string \<times> string) list"

definition xml_response :: "string \<Rightarrow> response" where
  "xml_response doc = PlainTextResponse doc ''application/xml''"

definition xml_lines :: "string list \<Rightarrow> string" where
  "xml_lines ls = concat (map (\<lambda>l. l @ [CHR 0x0A]) (butlast ls)) @ last ls"

definition speak_hangup_xml :: "string \<Rightarrow> string" where
  \<open>speak_hangup_xml msg = xml_lines
     [''<?xml version="1.0" encoding="UTF-8"?>'',
      ''<Response>'',
      ''    <Speak>'' @ msg @ ''</Speak>'',
      ''    <Hangup/>'',
      ''</Response>'']\<close>

definition error_xml :: string where
  "error_xml = speak_hangup_xml ''Sorry, there was an error connecting your call.''"

definition dial_xml :: "string \<Rightarrow> string \<Rightarrow> string" where
  \<open>dial_xml caller_id sip = xml_lines
     [''<?xml version="1.0" encoding="UTF-8"?>'',
      ''<Response>'',
      ''    <Dial callerId="'' @ caller_id @ ''" timeout="30">'',
      ''        <User>'' @ sip @ ''</User>'',
      ''    </Dial>'',
      ''</Response>'']\<close>

text \<open>
  \<open>plivo_answer_handler\<close>: the body of the \<^verbatim>\<open>try\<close> block, then the handler with
  its \<^verbatim>\<open>except Exception\<close> clause.  The handler reads the mapping and writes nothing.
\<close>

definition plivo_answer_body :: "call_mapping \<Rightarrow> request \<Rightarrow> exn + response" where
  "plivo_answer_body m req =
     (case form req of
        Inl e \<Rightarrow> Inl e
      | Inr form_data \<Rightarrow>
          (let call_uuid = form_data ''CallUUID'';
               from_number = form_data ''From'';
               to_number = form_data ''To'';
               call_id = query_params req ''call_id''
           in case resolve m call_id call_uuid to_number of
                Inl e \<Rightarrow> Inl e
              | Inr None \<Rightarrow> Inr (xml_response error_xml)
              | Inr (Some mapping) \<Rightarrow>
                  Inr (xml_response (dial_xml (py_str from_number) (sip_uri mapping)))))"

definition plivo_answer_handler :: "call_mapping \<Rightarrow> request \<Rightarrow> exn + response" where
  "plivo_answer_handler m req =
     (case plivo_answer_body m req of
        Inr r \<Rightarrow> Inr r
      | Inl e \<Rightarrow> Inr (xml_response error_xml))"

text \<open>
  \<open>plivo_hangup_handler\<close> has no \<^verbatim>\<open>try\<close>: a request whose form cannot be read
  raises.  \<^verbatim>\<open>del call_to_sip_mapping[call_uuid]\<close> removes the entry of that key.
\<close>

definition delete_mapping :: "call_mapping \<Rightarrow> string \<Rightarrow> call_mapping" where
  "delete_mapping m k = filter (\<lambda>(k', v). k' \<noteq> k) m"

definition plivo_hangup_handler ::
  "call_mapping \<Rightarrow> request \<Rightarrow> (exn + response) \<times> call_mapping" where
  "plivo_hangup_handler m req =
     (case form req of
        Inl e \<Rightarrow> (Inl e, m)
      | Inr form_data \<Rightarrow>
          (let call_uuid = form_data ''CallUUID'' in
           (Inr (JSONResponse [(''status'', ''received'')]),
            if get_call_mapping m call_uuid \<noteq> None
            then delete_mapping m (the call_uuid) else m)))"

section \<open>The administrative endpoint (server.py, both servers)\<close>

text \<open>
  The endpoint reads a JSON body, whose values need not be strings.  A JSON value is a
  string, an array or an object here (null reads as \<open>None\<close>; numbers and booleans are
  not modelled).  The field \<open>call_id\<close> becomes a key of the dictionary, and an array or
  an object is not hashable, so this field is any JSON value.  The fields \<open>sip_uri\<close>
  and \<open>phone_number\<close> are only tested and stored; they are typed as the strings that
  \<open>store_call_mapping\<close> annotates.  A body that is not an object has no method
  \<open>get\<close>.  \<open>truthy_json\<close> is Python's truth test on the value of \<open>call_id\<close>.
\<close>

datatype json_value =
    JString string
  | JArray "json_value list"
  | JObject "(string \<times> json_value) list"

definition truthy_json :: "json_value option \<Rightarrow> bool" where
  "truthy_json v =
     (case v of
        None \<Rightarrow> False
      | Some (JString s) \<Rightarrow> s \<noteq> []
      | Some (JArray xs) \<Rightarrow> xs \<noteq> []
      | Some (JObject kvs) \<Rightarrow> kvs \<noteq> [])"

record mapping_fields =
  field_call_id :: "json_value option"
  field_sip_uri :: "string option"
  field_phone_number :: "string option"

datatype json_body = JsonObject mapping_fields | JsonOther

record mapping_request =
  request_json :: "exn + json_body"

text \<open>
  \<open>store_call_mapping_endpoint\<close>: the \<^verbatim>\<open>HTTPException\<close> with status 400 is raised
  inside the \<^verbatim>\<open>try\<close> block, and \<^verbatim>\<open>except Exception as e\<close> catches it, as it
  catches every other exception of the block, and raises status 500 with
  \<^verbatim>\<open>detail=str(e)\<close>.  The assignment \<^verbatim>\<open>call_to_sip_mapping[call_id] = ...\<close> in
  \<open>store_call_mapping\<close> raises \<open>TypeError\<close> for an unhashable key and writes nothing.
\<close>

definition store_call_mapping_body ::
  "call_mapping \<Rightarrow> mapping_request \<Rightarrow> (exn + response) \<times> call_mapping" where
  "store_call_mapping_body m req =
     (case request_json req of
        Inl e \<Rightarrow> (Inl e, m)
      | Inr JsonOther \<Rightarrow> (Inl AttributeError, m)
      | Inr (JsonObject data) \<Rightarrow>
          (let call_id = field_call_id data;
               sip = field_sip_uri data;
               phone = field_phone_number data
           in if \<not> (truthy_json call_id \<and> truthy sip \<and> truthy phone)
              then (Inl (HTTPException 400 (Lit ''Missing required fields'')), m)
              else (case call_id of
                      Some (JString key) \<Rightarrow>
                        (Inr (JSONResponse [(''status'', ''success''), (''call_id'', key)]),
                         store_call_mapping m key (the sip) phone)
                    | _ \<Rightarrow> (Inl TypeError, m))))"

definition store_call_mapping_endpoint ::
  "call_mapping \<Rightarrow> mapping_request \<Rightarrow> (exn + response) \<times> call_mapping" where
  "store_call_mapping_endpoint m req =
     (case store_call_mapping_body m req of
        (Inr r, m') \<Rightarrow> (Inr r, m')
      | (Inl e, m') \<Rightarrow> (Inl (HTTPException 500 (FStr [] e)), m'))"

section \<open>The call flows (server.py and inbound-call/server.py)\<close>

text \<open>
  The collaborators of a flow (the conferencing API, the file system, the worker process,
  the environment variables, the carrier's client library) are outside the repository.
  One run of a handler sees them through \<open>env\<close>: what each call to the outside
  returns or raises.  An HTTP response has its status, its body as \<^verbatim>\<open>response.json()\<close>
  parses it (or the exception of the parser) and its body as text.  The JSON bodies are
  typed as the code reads them: the created room is an object of string fields, the token
  response an object with a string field \<open>token\<close>, and the room's configuration holds
  objects nested as \<open>config.sip_uri.endpoint\<close>.
\<close>

record 'a http_response =
  status :: nat
  json_body :: "exn + 'a"
  text_body :: string

type_synonym json_object = "(string \<times> string) list"

type_synonym room_info = "(string \<times> (string \<times> json_object) list) list"

datatype token_result = Token "string option" | ErrorDict string

datatype plivo_response =
    ResponseObject "string \<rightharpoonup> string option"
  | ResponseDict "string \<rightharpoonup> string"

record plivo_call =
  from_ :: string
  to_ :: string
  answer_url :: string
  answer_method :: string
  hangup_url :: string
  hangup_method :: string

record env =
  post_rooms :: "exn + json_object http_response"
  post_meeting_tokens :: "string \<Rightarrow> exn + (string \<rightharpoonup> string) http_response"
  get_room :: "string \<Rightarrow> exn + room_info http_response"
  script_dir :: string
  sys_executable :: string
  path_exists :: "string \<Rightarrow> bool"
  open_log :: "string \<Rightarrow> exn + unit"
  popen :: "string list \<Rightarrow> exn + nat"
  getenv :: "string \<rightharpoonup> string"
  server_url :: string
  plivo_client :: "exn + unit"
  calls_create :: "plivo_call \<Rightarrow> exn + plivo_response"

text \<open>
  The three functions that wrap the conferencing API.  \<open>create_daily_room\<close> returns the
  room's JSON object, or \<open>None\<close> when the status is not 200.  \<open>create_daily_token\<close>
  returns the field \<open>token\<close> of the response, or a dictionary with the key \<open>error\<close>
  when the status is not 200.  \<open>get_daily_sip_uri\<close> returns the endpoint found under
  \<open>config.sip_uri.endpoint\<close> with \<open>sip:\<close> in front, or the URI built from the room
  name when there is none, or \<open>None\<close> when the status is not 200.  \<open>dict_get\<close> is
  \<^verbatim>\<open>d.get(key, {})\<close> and \<open>string_of_nat\<close> the decimal digits of a status.
\<close>

fun string_of_nat :: "nat \<Rightarrow> string" where
  "string_of_nat n =
     (if n < 10 then [char_of (48 + n)]
      else string_of_nat (n div 10) @ [char_of (48 + n mod 10)])"

definition dict_get :: "(string \<times> 'a list) list \<Rightarrow> string \<Rightarrow> 'a list" where
  "dict_get d key = (case map_of d key of None \<Rightarrow> [] | Some v \<Rightarrow> v)"

definition create_daily_room :: "env \<Rightarrow> exn + json_object option" where
  "create_daily_room env =
     (case post_rooms env of
        Inl e \<Rightarrow> Inl e
      | Inr response \<Rightarrow>
          if status response = 200
          then (case json_body response of Inl e \<Rightarrow> Inl e | Inr room \<Rightarrow> Inr (Some room))
          else Inr None)"

definition create_daily_token :: "env \<Rightarrow> string \<Rightarrow> exn + token_result" where
  "create_daily_token env room_name =
     (case post_meeting_tokens env room_name of
        Inl e \<Rightarrow> Inl e
      | Inr response \<Rightarrow>
          if status response = 200
          then (case json_body response of
                  Inl e \<Rightarrow> Inl e
                | Inr result \<Rightarrow> Inr (Token (result ''token'')))
          else Inr (ErrorDict (''HTTP '' @ string_of_nat (status response) @ '': ''
                                @ text_body response)))"

definition get_daily_sip_uri :: "env \<Rightarrow> string \<Rightarrow> exn + string option" where
  "get_daily_sip_uri env room_name =
     (case get_room env room_name of
        Inl e \<Rightarrow> Inl e
      | Inr response \<Rightarrow>
          if status response = 200
          then (case json_body response of
                  Inl e \<Rightarrow> Inl e
                | Inr result \<Rightarrow>
                    (let config = dict_get result ''config'';
                         sip_uri_config = dict_get config ''sip_uri'';
                         sip_endpoint = map_of sip_uri_config ''endpoint''
                     in if truthy sip_endpoint
                        then Inr (Some (''sip:'' @ the sip_endpoint))
                        else Inr (Some (''sip:'' @ room_name @ ''@sip.daily.co''))))
          else Inr None)"

text \<open>
  The state of the server process: the dictionary \<open>call_to_sip_mapping\<close>, the list
  \<open>bot_procs\<close>, and the calls to the outside made so far, in the order they were made
  (a call is recorded when it is made, whatever it returns).
\<close>

datatype event =
    CreateRoom
  | CreateToken string
  | GetSipUri string
  | OpenLog string
  | Popen "string list"
  | Sleep nat
  | PlivoCall plivo_call
  | Store string

record server_state =
  call_to_sip_mapping :: call_mapping
  bot_procs :: "nat list"
  effects :: "event list"

definition log_effect :: "event \<Rightarrow> server_state \<Rightarrow> server_state" where
  "log_effect ev st = st\<lparr>effects := effects st @ [ev]\<rparr>"

definition store_mapping :: "string \<Rightarrow> string \<Rightarrow> string option \<Rightarrow> server_state \<Rightarrow> server_state" where
  "store_mapping call_id sip phone st =
     st\<lparr>call_to_sip_mapping := store_call_mapping (call_to_sip_mapping st) call_id sip phone,
        effects := effects st @ [Store call_id]\<rparr>"

definition os_path_join :: "string \<Rightarrow> string \<Rightarrow> string" where
  "os_path_join a b =
     (if b \<noteq> [] \<and> hd b = CHR ''/'' then b
      else if a = [] \<or> last a = CHR ''/'' then a @ b
      else a @ ''/'' @ b)"

definition extract_call_uuid :: "plivo_response \<Rightarrow> string option" where
  "extract_call_uuid response =
     (case response of
        ResponseObject attrs \<Rightarrow>
          (case attrs ''request_uuid'' of
             Some v \<Rightarrow> v
           | None \<Rightarrow>
               (case attrs ''call_uuid'' of
                  Some v \<Rightarrow> v
                | None \<Rightarrow>
                    (case attrs ''message_uuid'' of
                       Some v \<Rightarrow> v
                     | None \<Rightarrow> None)))
      | ResponseDict d \<Rightarrow>
          py_or (py_or (d ''request_uuid'') (d ''call_uuid'')) (d ''message_uuid''))"

text \<open>
  The worker is started as
  \<^verbatim>\<open>[sys.executable, bot_path, "-u", room_url, "-t", token, "-n", caller, "-s", sip_uri]\<close>
  with its output in \<^verbatim>\<open>bot_{room_name}.log\<close> beside the script; the carrier is asked to
  place the call with the answer and hangup callbacks of this server.
\<close>

definition bot_path :: "env \<Rightarrow> string" where
  "bot_path env = os_path_join (script_dir env) ''bot.py''"

definition log_file_path :: "env \<Rightarrow> string \<Rightarrow> string" where
  "log_file_path env room_name = os_path_join (script_dir env) (''bot_'' @ room_name @ ''.log'')"

definition bot_args :: "env \<Rightarrow> string \<Rightarrow> string \<Rightarrow> string \<Rightarrow> string \<Rightarrow> string list" where
  "bot_args env room_url token caller sip =
     [sys_executable env, bot_path env, ''-u'', room_url, ''-t'', token, ''-n'', caller, ''-s'', sip]"

definition call_request :: "env \<Rightarrow> string \<Rightarrow> string \<Rightarrow> plivo_call" where
  "call_request env from_number phone =
     \<lparr>from_ = from_number, to_ = phone,
      answer_url = server_url env @ ''/plivo-answer'', answer_method = ''POST'',
      hangup_url = server_url env @ ''/plivo-hangup'', hangup_method = ''POST''\<rparr>"

subsection \<open>The inbound flow\<close>

text \<open>
  Starting the worker in \<open>handle_inbound_call\<close>: every exception of this block is caught
  and only printed, and a missing worker file is only a warning.
\<close>

definition start_bot_inbound ::
  "env \<Rightarrow> string \<Rightarrow> string \<Rightarrow> string \<Rightarrow> string option \<Rightarrow> string \<Rightarrow> server_state \<Rightarrow> server_state" where
  "start_bot_inbound env room_url room_name token from_number sip st =
     (if \<not> path_exists env (bot_path env) then st
      else
        (let st1 = log_effect (OpenLog (log_file_path env room_name)) st
         in case open_log env (log_file_path env room_name) of
              Inl e \<Rightarrow> st1
            | Inr _ \<Rightarrow>
                (let args = bot_args env room_url token
                              (py_str (py_or from_number (Some ''unknown''))) sip;
                     st2 = log_effect (Popen args) st1
                 in case popen env args of
                      Inl e \<Rightarrow> st2
                    | Inr proc \<Rightarrow>
                        log_effect (Sleep 2) (st2\<lparr>bot_procs := bot_procs st2 @ [proc]\<rparr>))))"

definition inbound_body :: "env \<Rightarrow> server_state \<Rightarrow> request \<Rightarrow> (exn + response) \<times> server_state" where
  \<open>inbound_body env st req =
     (case form req of
        Inl e \<Rightarrow> (Inl e, st)
      | Inr form_data \<Rightarrow>
     (let call_uuid = form_data ''CallUUID'';
          from_number = form_data ''From'';
          to_number = form_data ''To''
      in
      if \<not> truthy call_uuid
      then (Inr (xml_response (speak_hangup_xml
                  ''Sorry, there was an error processing your call.'')), st)
      else
     (let st1 = log_effect CreateRoom st in
      case create_daily_room env of
        Inl e \<Rightarrow> (Inl e, st1)
      | Inr room_response \<Rightarrow>
      if room_response = None \<or> room_response = Some []
      then (Inr (xml_response (speak_hangup_xml
                  ''Sorry, we're unable to connect your call at this time. Please try again later.'')), st1)
      else
     (case map_of (the room_response) ''url'' of
        None \<Rightarrow> (Inl (KeyError ''url''), st1)
      | Some room_url \<Rightarrow>
     (case map_of (the room_response) ''name'' of
        None \<Rightarrow> (Inl (KeyError ''name''), st1)
      | Some room_name \<Rightarrow>
     (let st2 = log_effect (CreateToken room_name) st1 in
      case create_daily_token env room_name of
        Inl e \<Rightarrow> (Inl e, st2)
      | Inr (ErrorDict err) \<Rightarrow>
          (Inr (xml_response (speak_hangup_xml
                 ''Sorry, there was an error setting up your call.'')), st2)
      | Inr (Token token_result) \<Rightarrow>
      if \<not> truthy token_result
      then (Inr (xml_response (speak_hangup_xml
                  ''Sorry, there was an error setting up your call.'')), st2)
      else
     (let token = the token_result;
          st3 = log_effect (GetSipUri room_name) st2
      in
      case get_daily_sip_uri env room_name of
        Inl e \<Rightarrow> (Inl e, st3)
      | Inr sip \<Rightarrow>
      if \<not> truthy sip
      then (Inr (xml_response (speak_hangup_xml
                  ''Sorry, we're unable to connect your call. Please try again later.'')), st3)
      else
     (let st4 = store_mapping (the call_uuid) (the sip) from_number st3;
          st5 = (if truthy from_number
                 then store_mapping (lstrip_plus (the from_number)) (the sip) from_number
                        (store_mapping (the from_number) (the sip) from_number st4)
                 else st4);
          st6 = start_bot_inbound env room_url room_name token from_number (the sip) st5;
          caller_id = py_or from_number to_number
      in (Inr (xml_response (dial_xml (py_str caller_id) (the sip))), st6)))))))))\<close>

definition handle_inbound_call ::
  "env \<Rightarrow> server_state \<Rightarrow> request \<Rightarrow> (exn + response) \<times> server_state" where
  "handle_inbound_call env st req =
     (case inbound_body env st req of
        (Inr r, st') \<Rightarrow> (Inr r, st')
      | (Inl e, st') \<Rightarrow>
          (Inr (xml_response (speak_hangup_xml
                 ''Sorry, there was an error processing your call. Please try again later.'')), st'))"

subsection \<open>The outbound flow\<close>

text \<open>
  Starting the worker in \<open>handle_outbound_call\<close>: the block's own
  \<^verbatim>\<open>except Exception\<close> turns every exception, the \<open>HTTPException\<close> for the missing
  worker file included, into an \<open>HTTPException\<close> with status 500.
\<close>

definition start_bot_outbound ::
  "env \<Rightarrow> string \<Rightarrow> string \<Rightarrow> string \<Rightarrow> string \<Rightarrow> string \<Rightarrow> server_state
     \<Rightarrow> (exn + unit) \<times> server_state" where
  "start_bot_outbound env room_url room_name token phone sip st =
     (if \<not> path_exists env (bot_path env)
      then (Inl (HTTPException 500 (Lit (''Bot file not found: '' @ bot_path env))), st)
      else
        (let st1 = log_effect (OpenLog (log_file_path env room_name)) st
         in case open_log env (log_file_path env room_name) of
              Inl e \<Rightarrow> (Inl e, st1)
            | Inr _ \<Rightarrow>
                (let args = bot_args env room_url token phone sip;
                     st2 = log_effect (Popen args) st1
                 in case popen env args of
                      Inl e \<Rightarrow> (Inl e, st2)
                    | Inr proc \<Rightarrow>
                        (Inr (), log_effect (Sleep 5) (st2\<lparr>bot_procs := bot_procs st2 @ [proc]\<rparr>)))))"

definition start_bot_outbound_try ::
  "env \<Rightarrow> string \<Rightarrow> string \<Rightarrow> string \<Rightarrow> string \<Rightarrow> string \<Rightarrow> server_state
     \<Rightarrow> (exn + unit) \<times> server_state" where
  "start_bot_outbound_try env room_url room_name token phone sip st =
     (case start_bot_outbound env room_url room_name token phone sip st of
        (Inr u, st') \<Rightarrow> (Inr u, st')
      | (Inl e, st') \<Rightarrow>
          (Inl (HTTPException 500 (FStr ''Failed to start bot process: '' e)), st'))"

text \<open>
  Placing the call and storing the mapping: the second inner \<^verbatim>\<open>try\<close> block of
  \<open>handle_outbound_call\<close>, with its \<^verbatim>\<open>except Exception\<close>.
\<close>

definition place_call ::
  "env \<Rightarrow> string \<Rightarrow> string \<Rightarrow> string \<Rightarrow> server_state \<Rightarrow> (exn + unit) \<times> server_state" where
  "place_call env from_number phone sip st =
     (case plivo_client env of
        Inl e \<Rightarrow> (Inl e, st)
      | Inr _ \<Rightarrow>
          (let call = call_request env from_number phone;
               st1 = log_effect (PlivoCall call) st
           in case calls_create env call of
                Inl e \<Rightarrow> (Inl e, st1)
              | Inr response \<Rightarrow>
                  (let call_uuid = extract_call_uuid response;
                       st2 = store_mapping phone sip (Some phone) st1;
                       phone_no_plus = lstrip_plus phone;
                       st3 = store_mapping phone_no_plus sip (Some phone) st2;
                       st4 = (if truthy call_uuid
                              then store_mapping (the call_uuid) sip (Some phone) st3
                              else st3)
                   in (Inr (), st4))))"

definition place_call_try ::
  "env \<Rightarrow> string \<Rightarrow> string \<Rightarrow> string \<Rightarrow> server_state \<Rightarrow> (exn + unit) \<times> server_state" where
  "place_call_try env from_number phone sip st =
     (case place_call env from_number phone sip st of
        (Inr u, st') \<Rightarrow> (Inr u, st')
      | (Inl e, st') \<Rightarrow>
          (Inl (HTTPException 500 (FStr ''Failed to initiate Plivo call: '' e)), st'))"

definition outbound_body :: "env \<Rightarrow> server_state \<Rightarrow> request \<Rightarrow> (exn + response) \<times> server_state" where
  "outbound_body env st req =
     (case json req of
        Inl e \<Rightarrow> (Inl e, st)
      | Inr data \<Rightarrow>
     (let phone_number = data ''phone_number'' in
      if \<not> truthy phone_number
      then (Inl (HTTPException 400 (Lit ''Missing required parameter: phone_number'')), st)
      else
     (let st1 = log_effect CreateRoom st in
      case create_daily_room env of
        Inl e \<Rightarrow> (Inl e, st1)
      | Inr room_response \<Rightarrow>
      if room_response = None \<or> room_response = Some []
      then (Inl (HTTPException 500 (Lit ''Failed to create Daily room'')), st1)
      else
     (case map_of (the room_response) ''url'' of
        None \<Rightarrow> (Inl (KeyError ''url''), st1)
      | Some room_url \<Rightarrow>
     (case map_of (the room_response) ''name'' of
        None \<Rightarrow> (Inl (KeyError ''name''), st1)
      | Some room_name \<Rightarrow>
     (let st2 = log_effect (CreateToken room_name) st1 in
      case create_daily_token env room_name of
        Inl e \<Rightarrow> (Inl e, st2)
      | Inr (ErrorDict err) \<Rightarrow>
          (Inl (HTTPException 500 (Lit (''Failed to create Daily token: '' @ err))), st2)
      | Inr (Token token_result) \<Rightarrow>
      if \<not> truthy token_result
      then (Inl (HTTPException 500 (Lit ''Failed to create Daily token: Unknown error'')), st2)
      else
     (let token = the token_result;
          st3 = log_effect (GetSipUri room_name) st2
      in
      case get_daily_sip_uri env room_name of
        Inl e \<Rightarrow> (Inl e, st3)
      | Inr sip \<Rightarrow>
      if \<not> truthy sip
      then (Inl (HTTPException 500 (Lit ''Failed to get Daily SIP URI'')), st3)
      else
     (case start_bot_outbound_try env room_url room_name token (the phone_number) (the sip) st3 of
        (Inl e, st4) \<Rightarrow> (Inl e, st4)
      | (Inr _, st4) \<Rightarrow>
     (let plivo_auth_id = getenv env ''PLIVO_AUTH_ID'';
          plivo_auth_token = getenv env ''PLIVO_AUTH_TOKEN'';
          from_number = getenv env ''PLIVO_PHONE_NUMBER''
      in
      if \<not> list_all truthy [plivo_auth_id, plivo_auth_token, from_number]
      then (Inl (HTTPException 500 (Lit ''Plivo credentials not configured'')), st4)
      else
     (case place_call_try env (the from_number) (the phone_number) (the sip) st4 of
        (Inl e, st5) \<Rightarrow> (Inl e, st5)
      | (Inr _, st5) \<Rightarrow>
          (Inr (JSONResponse
                 [(''status'', ''success''),
                  (''message'', ''Outbound call initiated to '' @ the phone_number),
                  (''room_url'', room_url),
                  (''room_name'', room_name)]), st5)))))))))))"

definition handle_outbound_call ::
  "env \<Rightarrow> server_state \<Rightarrow> request \<Rightarrow> (exn + response) \<times> server_state" where
  "handle_outbound_call env st req =
     (case outbound_body env st req of
        (Inr r, st') \<Rightarrow> (Inr r, st')
      | (Inl e, st') \<Rightarrow>
          (Inl (HTTPException 500 (FStr ''Error processing outbound call: '' e)), st'))"

section \<open>The fallback chain as the specification words it\<close>

text \<open>
  The specification describes the lookup as a chain of five steps whose first hit is the
  answer.  \<open>first_hit\<close> picks the first step that is not \<open>None\<close>.  Two numbers are
  equal up to a plus prefix (\<open>plus_tolerant_eq\<close>) when they are equal after the leading
  plus signs are stripped from the one side that has them: when exactly one of the two
  starts with a plus sign, that side is stripped before the comparison.

  \<open>chain_steps\<close> are the five steps with both number lookups (as given, and
  stripped) attempted for a non-empty number only.  \<open>claimed_steps\<close> differ in the
  fourth step: the stripped number is looked up whether or not the number is empty.
\<close>

definition starts_plus :: "string \<Rightarrow> bool" where
  "starts_plus s = (s \<noteq> [] \<and> hd s = CHR ''+'')"

definition plus_tolerant_eq :: "string \<Rightarrow> string \<Rightarrow> bool" where
  "plus_tolerant_eq stored to =
     ((if starts_plus stored \<and> \<not> starts_plus to then lstrip_plus stored else stored) =
      (if starts_plus to \<and> \<not> starts_plus stored then lstrip_plus to else to))"

definition stored_number_matches :: "string \<Rightarrow> call_record \<Rightarrow> bool" where
  "stored_number_matches to r =
     (case phone_number r of None \<Rightarrow> False | Some p \<Rightarrow> plus_tolerant_eq p to)"

primrec first_hit :: "'a option list \<Rightarrow> 'a option" where
  "first_hit [] = None"
| "first_hit (x # xs) = (case x of Some v \<Rightarrow> Some v | None \<Rightarrow> first_hit xs)"

definition chain_steps ::
  "call_mapping \<Rightarrow> string option \<Rightarrow> string option \<Rightarrow> string \<Rightarrow> call_record option list" where
  "chain_steps m call_id call_uuid to =
     [if truthy call_id then get_call_mapping m call_id else None,
      if truthy call_uuid then get_call_mapping m call_uuid else None,
      if to \<noteq> [] then map_of m to else None,
      if to \<noteq> [] then map_of m (lstrip_plus to) else None,
      find (stored_number_matches to) (map snd m)]"

definition resolve_chain ::
  "call_mapping \<Rightarrow> string option \<Rightarrow> string option \<Rightarrow> string \<Rightarrow> call_record option" where
  "resolve_chain m call_id call_uuid to = first_hit (chain_steps m call_id call_uuid to)"

definition claimed_steps ::
  "call_mapping \<Rightarrow> string option \<Rightarrow> string option \<Rightarrow> string \<Rightarrow> call_record option list" where
  "claimed_steps m call_id call_uuid to =
     [if truthy call_id then get_call_mapping m call_id else None,
      if truthy call_uuid then get_call_mapping m call_uuid else None,
      if to \<noteq> [] then map_of m to else None,
      map_of m (lstrip_plus to),
      find (stored_number_matches to) (map snd m)]"

definition claimed_chain ::
  "call_mapping \<Rightarrow> string option \<Rightarrow> string option \<Rightarrow> string \<Rightarrow> call_record option" where
  "claimed_chain m call_id call_uuid to = first_hit (claimed_steps m call_id call_uuid to)"


section \<open>Auxiliary notions for the flows\<close>

text \<open>
  \<open>is_store\<close> recognises a write to the mapping among the recorded calls.
  \<open>no_write st st'\<close> says that between the two states the mapping did not change and
  no write was recorded.  \<open>stored_by_call\<close> and \<open>uuid_events\<close> are what a placed call
  leaves in the mapping and in the record of calls for the identifier the carrier returned.
\<close>

fun is_store :: "event \<Rightarrow> bool" where
  "is_store (Store k) = True"
| "is_store ev = False"

definition no_write :: "server_state \<Rightarrow> server_state \<Rightarrow> bool" where
  "no_write st st' \<longleftrightarrow>
     call_to_sip_mapping st' = call_to_sip_mapping st \<and>
     (\<exists>evs. effects st' = effects st @ evs \<and> filter is_store evs = [])"

definition uuid_events :: "plivo_response \<Rightarrow> event list" where
  "uuid_events response =
     (if truthy (extract_call_uuid response)
      then [Store (the (extract_call_uuid response))] else [])"

definition stored_by_call ::
  "call_mapping \<Rightarrow> string \<Rightarrow> string \<Rightarrow> plivo_response \<Rightarrow> call_mapping" where
  "stored_by_call m phone sip response =
     (let m2 = store_call_mapping (store_call_mapping m phone sip (Some phone))
                 (lstrip_plus phone) sip (Some phone)
      in if truthy (extract_call_uuid response)
         then store_call_mapping m2 (the (extract_call_uuid response)) sip (Some phone)
         else m2)"

text \<open>
  A concrete environment, state and requests, for the statements evaluated at an input:
  every collaborator succeeds, the room is \<open>x\<close> at \<open>https://r/x\<close>, the token is
  \<open>tok\<close>, the room's SIP endpoint is \<open>x@y\<close>, and the carrier returns the request
  identifier \<open>r1\<close>.
\<close>

definition demo_env :: env where
  "demo_env =
     \<lparr>post_rooms =
        Inr \<lparr>status = 200, json_body = Inr [(''url'', ''https://r/x''), (''name'', ''x'')],
             text_body = []\<rparr>,
      post_meeting_tokens =
        (\<lambda>room_name. Inr \<lparr>status = 200, json_body = Inr [''token'' \<mapsto> ''tok''],
                          text_body = []\<rparr>),
      get_room =
        (\<lambda>room_name. Inr \<lparr>status = 200,
                          json_body = Inr [(''config'', [(''sip_uri'', [(''endpoint'', ''x@y'')])])],
                          text_body = []\<rparr>),
      script_dir = ''/srv/app'',
      sys_executable = ''/usr/bin/python3'',
      path_exists = (\<lambda>path. True),
      open_log = (\<lambda>path. Inr ()),
      popen = (\<lambda>args. Inr 4242),
      getenv = [''PLIVO_AUTH_ID'' \<mapsto> ''id'', ''PLIVO_AUTH_TOKEN'' \<mapsto> ''secret'',
                ''PLIVO_PHONE_NUMBER'' \<mapsto> ''+15550000000''],
      server_url = ''http://localhost:8000'',
      plivo_client = Inr (),
      calls_create = (\<lambda>call. Inr (ResponseObject [''request_uuid'' \<mapsto> Some ''r1'']))\<rparr>"

definition empty_state :: server_state where
  "empty_state = \<lparr>call_to_sip_mapping = [], bot_procs = [], effects = []\<rparr>"

definition form_request :: "(string \<times> string) list \<Rightarrow> request" where
  "form_request kvs =
     \<lparr>form = Inr (map_of kvs), query_params = Map.empty, json = Inl (Raised ''JSONDecodeError'')\<rparr>"

definition json_request :: "(string \<times> string) list \<Rightarrow> request" where
  "json_request kvs =
     \<lparr>form = Inr Map.empty, query_params = Map.empty, json = Inr (map_of kvs)\<rparr>"

section \<open>Facts about the mapping\<close>

lemma map_of_store:
  "map_of (store_call_mapping m k s p) k' =
     (if k' = k then Some \<lparr>sip_uri = s, phone_number = p\<rparr> else map_of m k')"
  by (induction m k s p rule: store_call_mapping.induct) auto

lemma get_store:
  "get_call_mapping (store_call_mapping m k s p) key =
     (if key = Some k then Some \<lparr>sip_uri = s, phone_number = p\<rparr> else get_call_mapping m key)"
  by (cases key) (simp_all add: get_call_mapping_def map_of_store)

lemma delete_absent: "map_of m k = None \<Longrightarrow> delete_mapping m k = m"
  unfolding delete_mapping_def
  by (induction m) (auto split: if_splits)

lemma get_after_filter:
  "get_call_mapping (filter (\<lambda>(k, v). Some k \<noteq> uuid) m) key =
     (if key = uuid then None else get_call_mapping m key)"
proof (cases key)
  case None
  then show ?thesis by (simp add: get_call_mapping_def)
next
  case (Some k)
  have "map_of (filter (\<lambda>(k, v). Some k \<noteq> uuid) m) k
          = (if Some k = uuid then None else map_of m k)"
    by (induction m) auto
  with Some show ?thesis by (auto simp add: get_call_mapping_def)
qed

lemma truthyD: "truthy x \<Longrightarrow> \<exists>v. x = Some v \<and> v \<noteq> []"
  by (cases x) (simp_all add: truthy_def)

section \<open>The lookup of the answer webhook\<close>

text \<open>
  With the number present, the step-by-step assignment of \<open>resolve\<close> is a cascade:
  each step is consulted only when all earlier ones missed.
\<close>

lemma resolve_steps:
  "resolve m call_id call_uuid (Some t) =
     (case (if truthy call_id then get_call_mapping m call_id else None) of
        Some r \<Rightarrow> Inr (Some r)
      | None \<Rightarrow>
     (case (if truthy call_uuid then get_call_mapping m call_uuid else None) of
        Some r \<Rightarrow> Inr (Some r)
      | None \<Rightarrow>
     (case (if t \<noteq> [] then map_of m t else None) of
        Some r \<Rightarrow> Inr (Some r)
      | None \<Rightarrow>
     (case (if t \<noteq> [] then map_of m (lstrip_plus t) else None) of
        Some r \<Rightarrow> Inr (Some r)
      | None \<Rightarrow> search_by_phone m (Some t)))))"
proof -
  have to: "truthy (Some t) = (t \<noteq> [])"
    "get_call_mapping m (Some t) = map_of m t"
    "get_call_mapping m (map_option lstrip_plus (Some t)) = map_of m (lstrip_plus t)"
    by (simp_all add: truthy_def get_call_mapping_def)
  show ?thesis
  proof (cases "if truthy call_id then get_call_mapping m call_id else None")
    case (Some r)
    then show ?thesis unfolding resolve_def Let_def to by (simp split: if_splits)
  next
    case n1: None
    show ?thesis
    proof (cases "if truthy call_uuid then get_call_mapping m call_uuid else None")
      case (Some r)
      with n1 show ?thesis unfolding resolve_def Let_def to by (simp split: if_splits)
    next
      case n2: None
      show ?thesis
      proof (cases "t = []")
        case True
        with n1 n2 show ?thesis unfolding resolve_def Let_def to by (simp split: if_splits)
      next
        case False
        with n1 n2 show ?thesis unfolding resolve_def Let_def to
          by (cases "map_of m t"; cases "map_of m (lstrip_plus t)"; simp split: if_splits)
      qed
    qed
  qed
qed

text \<open>
  C4, as amended.  Call IDs and call UUIDs share one key space, the single dictionary:
  a record stored under a non-empty key is returned when the key is supplied as the call
  ID, whatever the other two identifiers are, and also when it is supplied only as the
  call UUID (the call ID absent or empty).  The two positions differ in precedence only.
\<close>

theorem shared_key_space:
  assumes "map_of m k = Some r" and "k \<noteq> []"
  shows "resolve m (Some k) call_uuid to_number = Inr (Some r) \<and>
         (\<not> truthy call_id \<longrightarrow> resolve m call_id (Some k) to_number = Inr (Some r))"
  using assms unfolding resolve_def Let_def
  by (simp add: truthy_def get_call_mapping_def)

text \<open>
  The amended statement at the record of the claim: stored only under \<open>abc\<close>, found
  from either position.
\<close>

theorem shared_key_space_witness:
  "resolve (store_call_mapping [] ''abc'' ''sip:x@y'' (Some ''+15551234567''))
      (Some ''abc'') (Some '''') (Some '''')
     = Inr (Some \<lparr>sip_uri = ''sip:x@y'', phone_number = Some ''+15551234567''\<rparr>) \<and>
   resolve (store_call_mapping [] ''abc'' ''sip:x@y'' (Some ''+15551234567''))
      (Some '''') (Some ''abc'') (Some '''')
     = Inr (Some \<lparr>sip_uri = ''sip:x@y'', phone_number = Some ''+15551234567''\<rparr>)"
  using shared_key_space [of "store_call_mapping [] ''abc'' ''sip:x@y'' (Some ''+15551234567'')"
      "''abc''" "\<lparr>sip_uri = ''sip:x@y'', phone_number = Some ''+15551234567''\<rparr>"
      "Some ''''" "Some ''''" "Some ''''"]
  by (simp add: truthy_def)

text \<open>
  The claim as stated fails: with a record stored only under the call ID \<open>abc\<close>, the
  lookup that supplies \<open>abc\<close> only in the call UUID position (the other two
  identifiers empty) does not miss, it returns the record.
\<close>

theorem distinct_key_spaces_counterexample:
  "resolve (store_call_mapping [] ''abc'' ''sip:x@y'' (Some ''+15551234567''))
      (Some '''') (Some ''abc'') (Some '''')
     = Inr (Some \<lparr>sip_uri = ''sip:x@y'', phone_number = Some ''+15551234567''\<rparr>) \<and>
   resolve (store_call_mapping [] ''abc'' ''sip:x@y'' (Some ''+15551234567''))
      (Some '''') (Some ''abc'') (Some '''')
     \<noteq> Inr None"
  unfolding resolve_def Let_def
  by (simp add: truthy_def get_call_mapping_def)

text \<open>
  Stripping leaves a number that does not start with a plus sign, and changes nothing
  when there was none.  Hence the test of the loop, on two strings, is equality up to a
  plus prefix.
\<close>

lemma lstrip_plus_no_plus: "\<not> starts_plus s \<Longrightarrow> lstrip_plus s = s"
  by (cases s) (auto simp: starts_plus_def lstrip_plus_def)

lemma lstrip_plus_not_starts: "\<not> starts_plus (lstrip_plus s)"
  unfolding starts_plus_def lstrip_plus_def
  by (metis (mono_tags, lifting) hd_dropWhile)


lemma phone_matches_strings:
  "phone_matches (Some s) (Some t) = Inr (plus_tolerant_eq s t)"
  unfolding phone_matches_def plus_tolerant_eq_def
  using lstrip_plus_no_plus[of s] lstrip_plus_no_plus[of t]
    lstrip_plus_not_starts[of s] lstrip_plus_not_starts[of t]
  by auto


lemma search_by_phone_find:
  "\<forall>(k, r) \<in> set m. phone_number r \<noteq> None \<Longrightarrow>
   search_by_phone m (Some t) = Inr (find (stored_number_matches t) (map snd m))"
proof (induction m)
  case Nil
  then show ?case by simp
next
  case (Cons a m)
  obtain k r where a: "a = (k, r)" by (cases a)
  from Cons.prems a obtain p where p: "phone_number r = Some p" by auto
  show ?case using Cons a p
    by (simp add: phone_matches_strings stored_number_matches_def)
qed

lemma first_hit_None: "first_hit xs = None \<longleftrightarrow> (\<forall>x \<in> set xs. x = None)"
  by (induction xs) (auto split: option.splits)

lemma resolve_is_chain:
  assumes "\<forall>(k, r) \<in> set m. phone_number r \<noteq> None"
  shows "resolve m call_id call_uuid (Some t) = Inr (resolve_chain m call_id call_uuid t)"
  unfolding resolve_steps resolve_chain_def chain_steps_def search_by_phone_find[OF assms]
  by (simp split: option.splits)

text \<open>
  C1, as amended.  For every mapping whose records all carry a phone number, every call
  ID and call UUID (absent, empty or not) and every number \<open>to\<close> supplied in the To
  field, the lookup returns the first hit of the chain: the entry under the call ID if
  that is non-empty; else the entry under the call UUID if that is non-empty; else, for a
  non-empty number only, the entry under the number as given and then the entry under
  the number with its leading plus signs stripped; else the first stored record, in
  insertion order, whose stored phone number equals the number up to a plus prefix on one
  side.  It reports no record if and only if all five steps miss.
\<close>

theorem resolve_fallback_chain:
  assumes "\<forall>(k, r) \<in> set m. phone_number r \<noteq> None"
  shows "resolve m call_id call_uuid (Some to) = Inr (resolve_chain m call_id call_uuid to) \<and>
         (resolve m call_id call_uuid (Some to) = Inr None
            \<longleftrightarrow> (\<forall>step \<in> set (chain_steps m call_id call_uuid to). step = None))"
  using resolve_is_chain[OF assms, of call_id call_uuid to]
  by (simp add: resolve_chain_def first_hit_None)

text \<open>
  The amended statement at an input: two records, neither stored under the queried
  number; the unknown call UUID and both number lookups miss, and the loop finds the
  second record, whose stored number carries the plus sign the query lacks.
\<close>

theorem resolve_fallback_chain_witness:
  "resolve [(''u0'', \<lparr>sip_uri = ''sip:a@b'', phone_number = Some ''+14440000000''\<rparr>),
            (''abc'', \<lparr>sip_uri = ''sip:c@d'', phone_number = Some ''+15551234567''\<rparr>)]
      None (Some ''zzz'') (Some ''15551234567'')
     = Inr (Some \<lparr>sip_uri = ''sip:c@d'', phone_number = Some ''+15551234567''\<rparr>)"
  using resolve_fallback_chain
    [of "[(''u0'', \<lparr>sip_uri = ''sip:a@b'', phone_number = Some ''+14440000000''\<rparr>),
          (''abc'', \<lparr>sip_uri = ''sip:c@d'', phone_number = Some ''+15551234567''\<rparr>)]"
        None "Some ''zzz''" "''15551234567''"]
  by (simp add: resolve_chain_def chain_steps_def truthy_def get_call_mapping_def
      stored_number_matches_def plus_tolerant_eq_def starts_plus_def lstrip_plus_def)

text \<open>
  The claim as stated fails at an empty number.  A record is stored under the empty key;
  the answer webhook supplies three empty identifiers.  The fourth step of the claim, the
  exact lookup on the stripped number, finds the record, but the handler attempts neither
  number lookup for an empty number and its loop finds no matching phone number: it
  reports no record.
\<close>

theorem resolve_empty_number_counterexample:
  "resolve (store_call_mapping [] '''' ''sip:a@b'' (Some ''5''))
      (Some '''') (Some '''') (Some '''') = Inr None \<and>
   claimed_chain (store_call_mapping [] '''' ''sip:a@b'' (Some ''5''))
      (Some '''') (Some '''') ''''
     = Some \<lparr>sip_uri = ''sip:a@b'', phone_number = Some ''5''\<rparr>"
  by (simp add: resolve_def claimed_chain_def claimed_steps_def truthy_def
      get_call_mapping_def phone_matches_def lstrip_plus_def)

text \<open>
  The loop does not treat a missing value: when the To field is absent, or a record was
  stored without a phone number (the inbound flow stores the From field as it is), the
  call of \<open>lstrip\<close> on \<open>None\<close> raises before later records are examined.
\<close>

lemma search_by_phone_raises:
  "search_by_phone
     [(''u0'', \<lparr>sip_uri = ''sip:a@b'', phone_number = None\<rparr>),
      (''abc'', \<lparr>sip_uri = ''sip:c@d'', phone_number = Some ''+15551234567''\<rparr>)]
     (Some ''15551234567'') = Inl AttributeError"
  by (simp add: phone_matches_def lstrip_plus_def)

text \<open>
  Such a mapping arises from requests alone: an inbound notification without a From
  field stores a record without a phone number.  An answer webhook that reaches the loop
  then gets the error document, although a later record carries the queried number.
\<close>

lemma inbound_without_from_field:
  "call_to_sip_mapping (snd (handle_inbound_call demo_env empty_state
       (form_request [(''CallUUID'', ''u0''), (''To'', ''+1555999'')])))
     = [(''u0'', \<lparr>sip_uri = ''sip:x@y'', phone_number = None\<rparr>)]"
  by (simp add: handle_inbound_call_def inbound_body_def demo_env_def create_daily_room_def create_daily_token_def get_daily_sip_uri_def dict_get_def empty_state_def
      form_request_def truthy_def py_or_def py_str_def store_mapping_def log_effect_def
      start_bot_inbound_def bot_args_def bot_path_def log_file_path_def os_path_join_def
      Let_def)

lemma answer_after_record_without_number:
  "plivo_answer_handler
     [(''u0'', \<lparr>sip_uri = ''sip:x@y'', phone_number = None\<rparr>),
      (''abc'', \<lparr>sip_uri = ''sip:c@d'', phone_number = Some ''+15551234567''\<rparr>)]
     (form_request [(''CallUUID'', ''zzz''), (''From'', ''+15550000000''), (''To'', ''15551234567'')])
     = Inr (xml_response error_xml) \<and>
   resolve_chain
     [(''u0'', \<lparr>sip_uri = ''sip:x@y'', phone_number = None\<rparr>),
      (''abc'', \<lparr>sip_uri = ''sip:c@d'', phone_number = Some ''+15551234567''\<rparr>)]
     None (Some ''zzz'') ''15551234567''
     = Some \<lparr>sip_uri = ''sip:c@d'', phone_number = Some ''+15551234567''\<rparr>"
  by (simp add: plivo_answer_handler_def plivo_answer_body_def form_request_def resolve_def
      truthy_def get_call_mapping_def phone_matches_def lstrip_plus_def
      resolve_chain_def chain_steps_def stored_number_matches_def plus_tolerant_eq_def
      starts_plus_def)

section \<open>Finding a stored record across the plus prefix\<close>











section \<open>The answer webhook\<close>

lemma answer_handler_document:
  "plivo_answer_handler m req =
     Inr (xml_response
           (case form req of
              Inl e \<Rightarrow> error_xml
            | Inr form_data \<Rightarrow>
                (case resolve m (query_params req ''call_id'') (form_data ''CallUUID'')
                        (form_data ''To'') of
                   Inr (Some r) \<Rightarrow> dial_xml (py_str (form_data ''From'')) (sip_uri r)
                 | Inr None \<Rightarrow> error_xml
                 | Inl e \<Rightarrow> error_xml)))"
  unfolding plivo_answer_handler_def plivo_answer_body_def Let_def
  by (simp split: sum.splits option.splits)

lemma error_xml_text:
  \<open>error_xml =
     ''<?xml version="1.0" encoding="UTF-8"?>\<newline><Response>\<newline>    <Speak>Sorry, there was an error connecting your call.</Speak>\<newline>    <Hangup/>\<newline></Response>''\<close>
  by (simp add: error_xml_def speak_hangup_xml_def xml_lines_def)

lemma dial_xml_text:
  \<open>dial_xml caller_id sip =
     ''<?xml version="1.0" encoding="UTF-8"?>\<newline><Response>\<newline>    <Dial callerId="'' @ caller_id @
     ''" timeout="30">\<newline>        <User>'' @ sip @ ''</User>\<newline>    </Dial>\<newline></Response>''\<close>
  by (simp add: dial_xml_def xml_lines_def)

text \<open>
  C3.  \<open>plivo_answer_handler\<close> raises nothing and returns the dial document on a hit
  and the fixed error document otherwise (\<open>answer_handler_document\<close>), but the dial
  document is not well-formed for every request: the From field and the SIP URI are
  pasted into the markup as they are.  A request on a hit whose From field is
  \<open>a<b&c\<close> gets a document whose attribute \<open>callerId\<close> holds a bare \<open><\<close> and a
  bare \<open>&\<close>, which XML does not allow in an attribute value.
\<close>

theorem answer_handler_unescaped_from:
  \<open>plivo_answer_handler
      [(''u1'', \<lparr>sip_uri = ''sip:x@y'', phone_number = Some ''+1555000''\<rparr>)]
      (form_request [(''CallUUID'', ''u1''), (''From'', ''a<b&c''), (''To'', ''+1555999'')])
     = Inr (PlainTextResponse
         ''<?xml version="1.0" encoding="UTF-8"?>\<newline><Response>\<newline>    <Dial callerId="a<b&c" timeout="30">\<newline>        <User>sip:x@y</User>\<newline>    </Dial>\<newline></Response>''
         ''application/xml'')\<close>
  by (simp add: answer_handler_document form_request_def resolve_def truthy_def
      get_call_mapping_def py_str_def xml_response_def dial_xml_def xml_lines_def)

section \<open>The hangup webhook\<close>

lemma hangup_state:
  assumes "form req = Inr form_data"
  shows "plivo_hangup_handler m req =
           (Inr (JSONResponse [(''status'', ''received'')]),
            filter (\<lambda>(k, v). Some k \<noteq> form_data ''CallUUID'') m)"
proof (cases "form_data ''CallUUID''")
  case None
  then show ?thesis
    using assms by (simp add: plivo_hangup_handler_def get_call_mapping_def)
next
  case (Some u)
  have same: "filter (\<lambda>(k, v). Some k \<noteq> Some u) m = delete_mapping m u"
    by (simp add: delete_mapping_def)
  show ?thesis
  proof (cases "map_of m u")
    case None
    then show ?thesis
      using assms Some same delete_absent[OF None]
      by (simp add: plivo_hangup_handler_def get_call_mapping_def)
  next
    case (Some r)
    then show ?thesis
      using assms \<open>form_data ''CallUUID'' = Some u\<close> same
      by (simp add: plivo_hangup_handler_def get_call_mapping_def)
  qed
qed

text \<open>
  C5.  For every request whose form can be read, \<open>plivo_hangup_handler\<close> returns the
  acknowledgment, whether or not the mapping has an entry for the call UUID of the
  request, and the mapping it leaves is the old one without the entry of that key, the
  other entries in their order: a lookup of the call UUID finds nothing, and a lookup of
  any other key finds what it found before.
\<close>

theorem hangup_removes_only_uuid:
  assumes "form req = Inr form_data"
  shows "\<exists>m'. plivo_hangup_handler m req = (Inr (JSONResponse [(''status'', ''received'')]), m')
           \<and> m' = filter (\<lambda>(k, v). Some k \<noteq> form_data ''CallUUID'') m
           \<and> get_call_mapping m' (form_data ''CallUUID'') = None
           \<and> (\<forall>key. key \<noteq> form_data ''CallUUID'' \<longrightarrow>
                 get_call_mapping m' key = get_call_mapping m key)"
  using hangup_state[OF assms] by (simp add: get_after_filter)

text \<open>
  The statement at an input: a call stored under its UUID \<open>u1\<close> and under both forms of
  the caller's number, then the hangup of \<open>u1\<close>.  The UUID is gone, the two number
  keys remain, and a later answer webhook for the number still resolves; a hangup for a
  UUID that was never stored is acknowledged the same way.
\<close>

theorem hangup_removes_only_uuid_witness:
  "plivo_hangup_handler
      [(''u1'', \<lparr>sip_uri = ''sip:x@y'', phone_number = Some ''+1555000''\<rparr>),
       (''+1555000'', \<lparr>sip_uri = ''sip:x@y'', phone_number = Some ''+1555000''\<rparr>),
       (''1555000'', \<lparr>sip_uri = ''sip:x@y'', phone_number = Some ''+1555000''\<rparr>)]
      (form_request [(''CallUUID'', ''u1''), (''HangupCause'', ''NORMAL_CLEARING'')])
     = (Inr (JSONResponse [(''status'', ''received'')]),
        [(''+1555000'', \<lparr>sip_uri = ''sip:x@y'', phone_number = Some ''+1555000''\<rparr>),
         (''1555000'', \<lparr>sip_uri = ''sip:x@y'', phone_number = Some ''+1555000''\<rparr>)]) \<and>
   resolve
      [(''+1555000'', \<lparr>sip_uri = ''sip:x@y'', phone_number = Some ''+1555000''\<rparr>),
       (''1555000'', \<lparr>sip_uri = ''sip:x@y'', phone_number = Some ''+1555000''\<rparr>)]
      None (Some ''u1'') (Some ''+1555000'')
     = Inr (Some \<lparr>sip_uri = ''sip:x@y'', phone_number = Some ''+1555000''\<rparr>) \<and>
   plivo_hangup_handler [] (form_request [(''CallUUID'', ''u9'')])
     = (Inr (JSONResponse [(''status'', ''received'')]), [])"
  using hangup_removes_only_uuid
      [of "form_request [(''CallUUID'', ''u1''), (''HangupCause'', ''NORMAL_CLEARING'')]"
          "map_of [(''CallUUID'', ''u1''), (''HangupCause'', ''NORMAL_CLEARING'')]"
          "[(''u1'', \<lparr>sip_uri = ''sip:x@y'', phone_number = Some ''+1555000''\<rparr>),
            (''+1555000'', \<lparr>sip_uri = ''sip:x@y'', phone_number = Some ''+1555000''\<rparr>),
            (''1555000'', \<lparr>sip_uri = ''sip:x@y'', phone_number = Some ''+1555000''\<rparr>)]"]
    hangup_removes_only_uuid
      [of "form_request [(''CallUUID'', ''u9'')]" "map_of [(''CallUUID'', ''u9'')]" "[]"]
  by (simp add: form_request_def resolve_def truthy_def get_call_mapping_def)

section \<open>The administrative endpoint\<close>

lemma keys_store:
  "map fst (store_call_mapping m k s p) =
     (if k \<in> set (map fst m) then map fst m else map fst m @ [k])"
  by (induction m k s p rule: store_call_mapping.induct) auto

text \<open>
  C10, as amended.  For every request to \<open>store_call_mapping_endpoint\<close> whose JSON
  body lacks \<open>call_id\<close>, \<open>sip_uri\<close> or \<open>phone_number\<close>, or holds an empty value
  for one of them, the endpoint raises an \<open>HTTPException\<close> with status 500 whose detail
  is the text of the \<open>HTTPException\<close> with status 400 raised inside, and the mapping is
  unchanged; a body that cannot be read, or is not an object, gives status 500 as well.
  When the three fields are non-empty strings, the response is the object with
  \<open>status\<close> = \<open>success\<close> and the \<open>call_id\<close>, and the record is written under
  \<open>call_id\<close>: a lookup of \<open>call_id\<close> returns the record, every other key
  resolves as before, and the key keeps its place among the keys or, when it is new, is
  the last one.  When \<open>call_id\<close> is a non-empty array or object and the other two
  fields are non-empty strings, the write raises \<open>TypeError\<close>: the endpoint raises
  status 500 and the mapping is unchanged.
\<close>

theorem store_endpoint_statuses:
  "(request_json req = Inr (JsonObject data) \<and>
      \<not> (truthy_json (field_call_id data) \<and> truthy (field_sip_uri data)
          \<and> truthy (field_phone_number data))
      \<longrightarrow> store_call_mapping_endpoint m req =
            (Inl (HTTPException 500 (FStr [] (HTTPException 400 (Lit ''Missing required fields'')))), m))
   \<and> (request_json req = Inl e
      \<longrightarrow> store_call_mapping_endpoint m req = (Inl (HTTPException 500 (FStr [] e)), m))
   \<and> (request_json req = Inr JsonOther
      \<longrightarrow> store_call_mapping_endpoint m req = (Inl (HTTPException 500 (FStr [] AttributeError)), m))
   \<and> (request_json req = Inr (JsonObject data) \<and> field_call_id data = Some (JString c)
        \<and> field_sip_uri data = Some s \<and> field_phone_number data = Some p
        \<and> c \<noteq> [] \<and> s \<noteq> [] \<and> p \<noteq> []
      \<longrightarrow> (\<exists>m'. store_call_mapping_endpoint m req =
                   (Inr (JSONResponse [(''status'', ''success''), (''call_id'', c)]), m')
                \<and> m' = store_call_mapping m c s (Some p)
                \<and> map_of m' c = Some \<lparr>sip_uri = s, phone_number = Some p\<rparr>
                \<and> (\<forall>k. k \<noteq> c \<longrightarrow> map_of m' k = map_of m k)
                \<and> map fst m' = (if c \<in> set (map fst m) then map fst m else map fst m @ [c])))
   \<and> (request_json req = Inr (JsonObject data) \<and> truthy_json (field_call_id data)
        \<and> (\<forall>key. field_call_id data \<noteq> Some (JString key))
        \<and> truthy (field_sip_uri data) \<and> truthy (field_phone_number data)
      \<longrightarrow> store_call_mapping_endpoint m req = (Inl (HTTPException 500 (FStr [] TypeError)), m))"
proof (intro conjI impI)
  assume "request_json req = Inr (JsonObject data) \<and>
      \<not> (truthy_json (field_call_id data) \<and> truthy (field_sip_uri data)
          \<and> truthy (field_phone_number data))"
  then show "store_call_mapping_endpoint m req =
            (Inl (HTTPException 500 (FStr [] (HTTPException 400 (Lit ''Missing required fields'')))), m)"
    by (auto simp: store_call_mapping_endpoint_def store_call_mapping_body_def)
next
  assume "request_json req = Inl e"
  then show "store_call_mapping_endpoint m req = (Inl (HTTPException 500 (FStr [] e)), m)"
    by (simp add: store_call_mapping_endpoint_def store_call_mapping_body_def)
next
  assume "request_json req = Inr JsonOther"
  then show "store_call_mapping_endpoint m req = (Inl (HTTPException 500 (FStr [] AttributeError)), m)"
    by (simp add: store_call_mapping_endpoint_def store_call_mapping_body_def)
next
  assume h: "request_json req = Inr (JsonObject data) \<and> field_call_id data = Some (JString c)
        \<and> field_sip_uri data = Some s \<and> field_phone_number data = Some p
        \<and> c \<noteq> [] \<and> s \<noteq> [] \<and> p \<noteq> []"
  then have "store_call_mapping_endpoint m req =
               (Inr (JSONResponse [(''status'', ''success''), (''call_id'', c)]),
                store_call_mapping m c s (Some p))"
    by (simp add: store_call_mapping_endpoint_def store_call_mapping_body_def
        truthy_json_def truthy_def)
  then show "\<exists>m'. store_call_mapping_endpoint m req =
                   (Inr (JSONResponse [(''status'', ''success''), (''call_id'', c)]), m')
                \<and> m' = store_call_mapping m c s (Some p)
                \<and> map_of m' c = Some \<lparr>sip_uri = s, phone_number = Some p\<rparr>
                \<and> (\<forall>k. k \<noteq> c \<longrightarrow> map_of m' k = map_of m k)
                \<and> map fst m' = (if c \<in> set (map fst m) then map fst m else map fst m @ [c])"
    by (simp add: map_of_store keys_store)
next
  assume h: "request_json req = Inr (JsonObject data) \<and> truthy_json (field_call_id data)
        \<and> (\<forall>key. field_call_id data \<noteq> Some (JString key))
        \<and> truthy (field_sip_uri data) \<and> truthy (field_phone_number data)"
  then show "store_call_mapping_endpoint m req = (Inl (HTTPException 500 (FStr [] TypeError)), m)"
    by (auto simp: store_call_mapping_endpoint_def store_call_mapping_body_def
        split: option.splits json_value.splits)
qed

text \<open>
  The amended statement at four bodies, against a mapping that holds two entries: no
  phone number; all three fields with a new call ID, which is appended; all three fields
  with the call ID of the first entry, which is replaced in its place; and an array as
  call ID.
\<close>

theorem store_endpoint_statuses_witness:
  "store_call_mapping_endpoint
      [(''abc'', \<lparr>sip_uri = ''sip:a@b'', phone_number = Some ''+14440000000''\<rparr>),
       (''def'', \<lparr>sip_uri = ''sip:c@d'', phone_number = Some ''+14441111111''\<rparr>)]
      \<lparr>request_json = Inr (JsonObject
         \<lparr>field_call_id = Some (JString ''xyz''), field_sip_uri = Some ''sip:x@y'',
          field_phone_number = None\<rparr>)\<rparr>
     = (Inl (HTTPException 500 (FStr [] (HTTPException 400 (Lit ''Missing required fields'')))),
        [(''abc'', \<lparr>sip_uri = ''sip:a@b'', phone_number = Some ''+14440000000''\<rparr>),
         (''def'', \<lparr>sip_uri = ''sip:c@d'', phone_number = Some ''+14441111111''\<rparr>)]) \<and>
   store_call_mapping_endpoint
      [(''abc'', \<lparr>sip_uri = ''sip:a@b'', phone_number = Some ''+14440000000''\<rparr>),
       (''def'', \<lparr>sip_uri = ''sip:c@d'', phone_number = Some ''+14441111111''\<rparr>)]
      \<lparr>request_json = Inr (JsonObject
         \<lparr>field_call_id = Some (JString ''xyz''), field_sip_uri = Some ''sip:x@y'',
          field_phone_number = Some ''+1555000''\<rparr>)\<rparr>
     = (Inr (JSONResponse [(''status'', ''success''), (''call_id'', ''xyz'')]),
        [(''abc'', \<lparr>sip_uri = ''sip:a@b'', phone_number = Some ''+14440000000''\<rparr>),
         (''def'', \<lparr>sip_uri = ''sip:c@d'', phone_number = Some ''+14441111111''\<rparr>),
         (''xyz'', \<lparr>sip_uri = ''sip:x@y'', phone_number = Some ''+1555000''\<rparr>)]) \<and>
   store_call_mapping_endpoint
      [(''abc'', \<lparr>sip_uri = ''sip:a@b'', phone_number = Some ''+14440000000''\<rparr>),
       (''def'', \<lparr>sip_uri = ''sip:c@d'', phone_number = Some ''+14441111111''\<rparr>)]
      \<lparr>request_json = Inr (JsonObject
         \<lparr>field_call_id = Some (JString ''abc''), field_sip_uri = Some ''sip:x@y'',
          field_phone_number = Some ''+1555000''\<rparr>)\<rparr>
     = (Inr (JSONResponse [(''status'', ''success''), (''call_id'', ''abc'')]),
        [(''abc'', \<lparr>sip_uri = ''sip:x@y'', phone_number = Some ''+1555000''\<rparr>),
         (''def'', \<lparr>sip_uri = ''sip:c@d'', phone_number = Some ''+14441111111''\<rparr>)]) \<and>
   store_call_mapping_endpoint
      [(''abc'', \<lparr>sip_uri = ''sip:a@b'', phone_number = Some ''+14440000000''\<rparr>),
       (''def'', \<lparr>sip_uri = ''sip:c@d'', phone_number = Some ''+14441111111''\<rparr>)]
      \<lparr>request_json = Inr (JsonObject
         \<lparr>field_call_id = Some (JArray [JString ''xyz'']), field_sip_uri = Some ''sip:x@y'',
          field_phone_number = Some ''+1555000''\<rparr>)\<rparr>
     = (Inl (HTTPException 500 (FStr [] TypeError)),
        [(''abc'', \<lparr>sip_uri = ''sip:a@b'', phone_number = Some ''+14440000000''\<rparr>),
         (''def'', \<lparr>sip_uri = ''sip:c@d'', phone_number = Some ''+14441111111''\<rparr>)])"
  using store_endpoint_statuses
      [where m = "[(''abc'', \<lparr>sip_uri = ''sip:a@b'', phone_number = Some ''+14440000000''\<rparr>),
                   (''def'', \<lparr>sip_uri = ''sip:c@d'', phone_number = Some ''+14441111111''\<rparr>)]"
         and req = "\<lparr>request_json = Inr (JsonObject
                      \<lparr>field_call_id = Some (JString ''xyz''), field_sip_uri = Some ''sip:x@y'',
                       field_phone_number = None\<rparr>)\<rparr>"
         and data = "\<lparr>field_call_id = Some (JString ''xyz''), field_sip_uri = Some ''sip:x@y'',
                       field_phone_number = None\<rparr>"]
    store_endpoint_statuses
      [where m = "[(''abc'', \<lparr>sip_uri = ''sip:a@b'', phone_number = Some ''+14440000000''\<rparr>),
                   (''def'', \<lparr>sip_uri = ''sip:c@d'', phone_number = Some ''+14441111111''\<rparr>)]"
         and req = "\<lparr>request_json = Inr (JsonObject
                      \<lparr>field_call_id = Some (JString ''xyz''), field_sip_uri = Some ''sip:x@y'',
                       field_phone_number = Some ''+1555000''\<rparr>)\<rparr>"
         and data = "\<lparr>field_call_id = Some (JString ''xyz''), field_sip_uri = Some ''sip:x@y'',
                       field_phone_number = Some ''+1555000''\<rparr>"
         and c = "''xyz''" and s = "''sip:x@y''" and p = "''+1555000''"]
    store_endpoint_statuses
      [where m = "[(''abc'', \<lparr>sip_uri = ''sip:a@b'', phone_number = Some ''+14440000000''\<rparr>),
                   (''def'', \<lparr>sip_uri = ''sip:c@d'', phone_number = Some ''+14441111111''\<rparr>)]"
         and req = "\<lparr>request_json = Inr (JsonObject
                      \<lparr>field_call_id = Some (JString ''abc''), field_sip_uri = Some ''sip:x@y'',
                       field_phone_number = Some ''+1555000''\<rparr>)\<rparr>"
         and data = "\<lparr>field_call_id = Some (JString ''abc''), field_sip_uri = Some ''sip:x@y'',
                       field_phone_number = Some ''+1555000''\<rparr>"
         and c = "''abc''" and s = "''sip:x@y''" and p = "''+1555000''"]
    store_endpoint_statuses
      [where m = "[(''abc'', \<lparr>sip_uri = ''sip:a@b'', phone_number = Some ''+14440000000''\<rparr>),
                   (''def'', \<lparr>sip_uri = ''sip:c@d'', phone_number = Some ''+14441111111''\<rparr>)]"
         and req = "\<lparr>request_json = Inr (JsonObject
                      \<lparr>field_call_id = Some (JArray [JString ''xyz'']), field_sip_uri = Some ''sip:x@y'',
                       field_phone_number = Some ''+1555000''\<rparr>)\<rparr>"
         and data = "\<lparr>field_call_id = Some (JArray [JString ''xyz'']), field_sip_uri = Some ''sip:x@y'',
                       field_phone_number = Some ''+1555000''\<rparr>"]
  by (simp add: truthy_json_def truthy_def)

text \<open>
  The claim as stated fails at an unhashable call ID: the three fields are present and
  not empty, but the record is not written and the response is not the success object.
\<close>

theorem unhashable_call_id_counterexample:
  "store_call_mapping_endpoint
      [(''def'', \<lparr>sip_uri = ''sip:c@d'', phone_number = Some ''+14441111111''\<rparr>)]
      \<lparr>request_json = Inr (JsonObject
         \<lparr>field_call_id = Some (JArray [JString ''abc'']), field_sip_uri = Some ''sip:x@y'',
          field_phone_number = Some ''+1555000''\<rparr>)\<rparr>
     = (Inl (HTTPException 500 (FStr [] TypeError)),
        [(''def'', \<lparr>sip_uri = ''sip:c@d'', phone_number = Some ''+14441111111''\<rparr>)])"
  by (simp add: store_call_mapping_endpoint_def store_call_mapping_body_def
      truthy_json_def truthy_def)

section \<open>The outbound flow\<close>

lemma no_write_refl: "no_write st st"
  by (simp add: no_write_def)

lemma no_write_trans: "no_write a b \<Longrightarrow> no_write b c \<Longrightarrow> no_write a c"
  by (auto simp: no_write_def)

lemma no_write_log:
  "no_write st st1 \<Longrightarrow> \<not> is_store ev \<Longrightarrow> no_write st (log_effect ev st1)"
  by (auto simp: no_write_def log_effect_def)

lemma no_write_procs:
  "no_write st st1 \<Longrightarrow> no_write st (st1\<lparr>bot_procs := ps\<rparr>)"
  by (auto simp: no_write_def)

lemma start_bot_outbound_no_write:
  assumes "start_bot_outbound_try env room_url room_name token phone sip st1 = (res, st2)"
  shows "no_write st1 st2"
  using assms
  unfolding start_bot_outbound_try_def start_bot_outbound_def Let_def
  by (auto split: if_splits sum.splits intro!: no_write_log no_write_procs no_write_refl)

lemma place_call_fail_no_write:
  assumes "place_call_try env from_number phone sip st1 = (Inl e, st2)"
  shows "no_write st1 st2"
  using assms
  unfolding place_call_try_def place_call_def Let_def
  by (auto split: if_splits sum.splits intro!: no_write_log no_write_refl)

lemma outbound_body_fail_no_write:
  assumes "outbound_body env st req = (Inl e, st')"
  shows "no_write st st'"
  using assms
  unfolding outbound_body_def Let_def
  by (auto split: if_splits sum.splits option.splits prod.splits token_result.splits
      intro!: no_write_log no_write_refl
      dest!: start_bot_outbound_no_write place_call_fail_no_write
      elim!: no_write_trans[rotated])

lemma start_bot_outbound_success:
  assumes "start_bot_outbound_try env room_url room_name token phone sip st1 = (Inr u, st2)"
  shows "\<exists>proc. popen env (bot_args env room_url token phone sip) = Inr proc
           \<and> st2 = st1\<lparr>bot_procs := bot_procs st1 @ [proc],
                     effects := effects st1 @
                       [OpenLog (log_file_path env room_name),
                        Popen (bot_args env room_url token phone sip),
                        Sleep 5]\<rparr>"
  using assms
  unfolding start_bot_outbound_try_def start_bot_outbound_def Let_def log_effect_def
  by (auto split: if_splits sum.splits)

lemma place_call_success:
  assumes "place_call_try env from_number phone sip st1 = (Inr u, st2)"
  shows "\<exists>response. calls_create env (call_request env from_number phone) = Inr response
           \<and> st2 = st1\<lparr>call_to_sip_mapping :=
                       stored_by_call (call_to_sip_mapping st1) phone sip response,
                     effects := effects st1 @
                       [PlivoCall (call_request env from_number phone),
                        Store phone, Store (lstrip_plus phone)] @ uuid_events response\<rparr>"
  using assms
  unfolding place_call_try_def place_call_def Let_def log_effect_def store_mapping_def
    uuid_events_def stored_by_call_def
  by (auto split: if_splits sum.splits)

lemma outbound_body_success:
  assumes "outbound_body env st req = (Inr r, st')"
  shows "\<exists>data phone room room_url room_name token sip from_number proc response.
      json req = Inr data \<and> data ''phone_number'' = Some phone \<and>
      create_daily_room env = Inr (Some room) \<and>
      map_of room ''url'' = Some room_url \<and> map_of room ''name'' = Some room_name \<and>
      create_daily_token env room_name = Inr (Token (Some token)) \<and>
      get_daily_sip_uri env room_name = Inr (Some sip) \<and>
      getenv env ''PLIVO_PHONE_NUMBER'' = Some from_number \<and>
      popen env (bot_args env room_url token phone sip) = Inr proc \<and>
      calls_create env (call_request env from_number phone) = Inr response \<and>
      bot_procs st' = bot_procs st @ [proc] \<and>
      call_to_sip_mapping st' = stored_by_call (call_to_sip_mapping st) phone sip response \<and>
      effects st' = effects st @
        [CreateRoom, CreateToken room_name, GetSipUri room_name,
         OpenLog (log_file_path env room_name),
         Popen (bot_args env room_url token phone sip),
         Sleep 5,
         PlivoCall (call_request env from_number phone),
         Store phone, Store (lstrip_plus phone)] @ uuid_events response"
  using assms
  unfolding outbound_body_def Let_def
  apply (simp split: if_splits sum.splits option.splits prod.splits token_result.splits)
  apply (clarsimp dest!: start_bot_outbound_success place_call_success truthyD simp: log_effect_def)
  done

lemma outbound_result_body:
  "handle_outbound_call env st req = (Inr r, st') \<Longrightarrow> outbound_body env st req = (Inr r, st')"
  "handle_outbound_call env st req = (Inl e, st') \<Longrightarrow> \<exists>e'. outbound_body env st req = (Inl e', st')"
  unfolding handle_outbound_call_def
  by (auto split: prod.splits sum.splits)

text \<open>
  C6.  In every run of \<open>handle_outbound_call\<close> that returns the success response, the
  calls to the outside were made in this order, and no others: the room is created, the
  token minted, the SIP URI resolved; the log file is opened and the worker process is
  started; the handler sleeps 5 seconds; only then the carrier is asked to place the
  call; and only after that request has returned its response the mapping is written,
  first under the target number as given, then under the number without its plus sign,
  and last, when the response carries a non-empty call identifier, under that identifier.
\<close>

theorem outbound_success_order:
  assumes "handle_outbound_call env st req = (Inr r, st')"
  shows "\<exists>data phone room room_url room_name token sip from_number proc response.
      json req = Inr data \<and> data ''phone_number'' = Some phone \<and>
      create_daily_room env = Inr (Some room) \<and>
      map_of room ''url'' = Some room_url \<and> map_of room ''name'' = Some room_name \<and>
      create_daily_token env room_name = Inr (Token (Some token)) \<and>
      get_daily_sip_uri env room_name = Inr (Some sip) \<and>
      getenv env ''PLIVO_PHONE_NUMBER'' = Some from_number \<and>
      popen env (bot_args env room_url token phone sip) = Inr proc \<and>
      calls_create env (call_request env from_number phone) = Inr response \<and>
      bot_procs st' = bot_procs st @ [proc] \<and>
      call_to_sip_mapping st' = stored_by_call (call_to_sip_mapping st) phone sip response \<and>
      effects st' = effects st @
        [CreateRoom, CreateToken room_name, GetSipUri room_name,
         OpenLog (log_file_path env room_name),
         Popen (bot_args env room_url token phone sip),
         Sleep 5,
         PlivoCall (call_request env from_number phone),
         Store phone, Store (lstrip_plus phone)] @
        (if truthy (extract_call_uuid response)
         then [Store (the (extract_call_uuid response))] else [])"
  using outbound_body_success[OF outbound_result_body(1)[OF assms]]
  unfolding uuid_events_def .

text \<open>
  A run in the concrete environment, for the statements below: the call to
  \<open>+15551234567\<close> succeeds.
\<close>

lemma demo_outbound_run:
  "handle_outbound_call demo_env empty_state (json_request [(''phone_number'', ''+15551234567'')])
     = (Inr (JSONResponse
              [(''status'', ''success''),
               (''message'', ''Outbound call initiated to +15551234567''),
               (''room_url'', ''https://r/x''),
               (''room_name'', ''x'')]),
        \<lparr>call_to_sip_mapping =
           [(''+15551234567'', \<lparr>sip_uri = ''sip:x@y'', phone_number = Some ''+15551234567''\<rparr>),
            (''15551234567'', \<lparr>sip_uri = ''sip:x@y'', phone_number = Some ''+15551234567''\<rparr>),
            (''r1'', \<lparr>sip_uri = ''sip:x@y'', phone_number = Some ''+15551234567''\<rparr>)],
         bot_procs = [4242],
         effects =
           [CreateRoom, CreateToken ''x'', GetSipUri ''x'',
            OpenLog ''/srv/app/bot_x.log'',
            Popen [''/usr/bin/python3'', ''/srv/app/bot.py'', ''-u'', ''https://r/x'',
                   ''-t'', ''tok'', ''-n'', ''+15551234567'', ''-s'', ''sip:x@y''],
            Sleep 5,
            PlivoCall \<lparr>from_ = ''+15550000000'', to_ = ''+15551234567'',
                       answer_url = ''http://localhost:8000/plivo-answer'', answer_method = ''POST'',
                       hangup_url = ''http://localhost:8000/plivo-hangup'', hangup_method = ''POST''\<rparr>,
            Store ''+15551234567'', Store ''15551234567'', Store ''r1'']\<rparr>)"
  by (simp add: handle_outbound_call_def outbound_body_def demo_env_def create_daily_room_def create_daily_token_def get_daily_sip_uri_def dict_get_def empty_state_def
      json_request_def truthy_def log_effect_def start_bot_outbound_try_def
      start_bot_outbound_def place_call_try_def place_call_def store_mapping_def
      extract_call_uuid_def call_request_def bot_args_def bot_path_def log_file_path_def
      os_path_join_def lstrip_plus_def Let_def)

text \<open>
  The statement at that run: the worker is started and the 5 seconds pass before the
  carrier is called, and the three writes come last.
\<close>

theorem outbound_success_order_witness:
  "effects (snd (handle_outbound_call demo_env empty_state
       (json_request [(''phone_number'', ''+15551234567'')])))
     = [CreateRoom, CreateToken ''x'', GetSipUri ''x'',
        OpenLog ''/srv/app/bot_x.log'',
        Popen [''/usr/bin/python3'', ''/srv/app/bot.py'', ''-u'', ''https://r/x'',
               ''-t'', ''tok'', ''-n'', ''+15551234567'', ''-s'', ''sip:x@y''],
        Sleep 5,
        PlivoCall \<lparr>from_ = ''+15550000000'', to_ = ''+15551234567'',
                   answer_url = ''http://localhost:8000/plivo-answer'', answer_method = ''POST'',
                   hangup_url = ''http://localhost:8000/plivo-hangup'', hangup_method = ''POST''\<rparr>,
        Store ''+15551234567'', Store ''15551234567'', Store ''r1'']"
  using outbound_success_order[OF demo_outbound_run] demo_outbound_run
  by simp

text \<open>
  C7.  For every request to \<open>handle_outbound_call\<close> whose JSON body lacks
  \<open>phone_number\<close> (or holds an empty one), the state is unchanged: no room is created,
  nothing is written to the mapping, no worker is started.  The response, however, is
  not a client error: the \<open>HTTPException\<close> with status 400 is raised inside the
  \<^verbatim>\<open>try\<close> block, and its \<^verbatim>\<open>except Exception\<close> clause raises status 500 in its place.
\<close>

theorem outbound_missing_number_is_500:
  assumes "json req = Inr data" and "\<not> truthy (data ''phone_number'')"
  shows "handle_outbound_call env st req =
           (Inl (HTTPException 500 (FStr ''Error processing outbound call: ''
                  (HTTPException 400 (Lit ''Missing required parameter: phone_number'')))), st)"
  using assms by (simp add: handle_outbound_call_def outbound_body_def)

text \<open>The statement at the empty JSON object.\<close>

theorem outbound_missing_number_is_500_witness:
  "handle_outbound_call demo_env empty_state (json_request []) =
     (Inl (HTTPException 500 (FStr ''Error processing outbound call: ''
            (HTTPException 400 (Lit ''Missing required parameter: phone_number'')))), empty_state)"
  using outbound_missing_number_is_500 [of "json_request []" "map_of []" demo_env empty_state]
  by (simp add: json_request_def truthy_def)

text \<open>
  C9.  When \<open>handle_outbound_call\<close> fails, at whatever stage (reading the body, the
  missing number, room creation, token minting, SIP URI resolution, starting the worker,
  the carrier's credentials, or the place-call request itself), the mapping is the one
  before the run, and no write to it is among the calls the run made: the writes come
  only after the place-call request has returned its response.
\<close>

theorem outbound_failure_keeps_mapping:
  assumes "handle_outbound_call env st req = (Inl e, st')"
  shows "call_to_sip_mapping st' = call_to_sip_mapping st \<and>
         (\<exists>evs. effects st' = effects st @ evs \<and> filter is_store evs = [])"
proof -
  from outbound_result_body(2)[OF assms]
  obtain e' where "outbound_body env st req = (Inl e', st')" by blast
  from outbound_body_fail_no_write[OF this] show ?thesis
    by (simp add: no_write_def)
qed

text \<open>
  A run in which the carrier's client raises on the place-call request, everything before
  it having succeeded.
\<close>

lemma demo_outbound_failed_run:
  "handle_outbound_call (demo_env\<lparr>calls_create := (\<lambda>call. Inl (Raised ''PlivoRestError''))\<rparr>)
      \<lparr>call_to_sip_mapping = [(''abc'', \<lparr>sip_uri = ''sip:c@d'', phone_number = Some ''+14440000000''\<rparr>)],
       bot_procs = [], effects = []\<rparr>
      (json_request [(''phone_number'', ''+15551234567'')])
     = (Inl (HTTPException 500 (FStr ''Error processing outbound call: ''
              (HTTPException 500 (FStr ''Failed to initiate Plivo call: '' (Raised ''PlivoRestError''))))),
        \<lparr>call_to_sip_mapping = [(''abc'', \<lparr>sip_uri = ''sip:c@d'', phone_number = Some ''+14440000000''\<rparr>)],
         bot_procs = [4242],
         effects =
           [CreateRoom, CreateToken ''x'', GetSipUri ''x'',
            OpenLog ''/srv/app/bot_x.log'',
            Popen [''/usr/bin/python3'', ''/srv/app/bot.py'', ''-u'', ''https://r/x'',
                   ''-t'', ''tok'', ''-n'', ''+15551234567'', ''-s'', ''sip:x@y''],
            Sleep 5,
            PlivoCall \<lparr>from_ = ''+15550000000'', to_ = ''+15551234567'',
                       answer_url = ''http://localhost:8000/plivo-answer'', answer_method = ''POST'',
                       hangup_url = ''http://localhost:8000/plivo-hangup'', hangup_method = ''POST''\<rparr>]\<rparr>)"
  by (simp add: handle_outbound_call_def outbound_body_def demo_env_def
      create_daily_room_def create_daily_token_def get_daily_sip_uri_def dict_get_def
      json_request_def truthy_def log_effect_def start_bot_outbound_try_def
      start_bot_outbound_def place_call_try_def place_call_def
      call_request_def bot_args_def bot_path_def log_file_path_def os_path_join_def Let_def)

text \<open>The statement at that run: the entry that was there is all the mapping holds.\<close>

theorem outbound_failure_keeps_mapping_witness:
  "call_to_sip_mapping (snd (handle_outbound_call
       (demo_env\<lparr>calls_create := (\<lambda>call. Inl (Raised ''PlivoRestError''))\<rparr>)
       \<lparr>call_to_sip_mapping = [(''abc'', \<lparr>sip_uri = ''sip:c@d'', phone_number = Some ''+14440000000''\<rparr>)],
        bot_procs = [], effects = []\<rparr>
       (json_request [(''phone_number'', ''+15551234567'')])))
     = [(''abc'', \<lparr>sip_uri = ''sip:c@d'', phone_number = Some ''+14440000000''\<rparr>)]"
  using outbound_failure_keeps_mapping[OF demo_outbound_failed_run] demo_outbound_failed_run
  by simp

section \<open>The inbound flow\<close>

lemma start_bot_inbound_mapping:
  "call_to_sip_mapping (start_bot_inbound env room_url room_name token from_number sip st)
     = call_to_sip_mapping st"
  unfolding start_bot_inbound_def Let_def log_effect_def
  by (simp split: sum.splits)

text \<open>
  C8.  Room creation yields a room with URL \<open>https://r/x\<close> and name \<open>x\<close>, token
  minting yields \<open>tok\<close>, SIP URI resolution yields \<open>sip:x@y\<close>, and the inbound
  notification carries CallUUID \<open>u1\<close>, From \<open>+1555000\<close> and To \<open>+1555999\<close>.
  Then, from every state and whatever happens when the worker is started,
  \<open>handle_inbound_call\<close> returns the document that dials \<open>sip:x@y\<close> with the caller
  identity \<open>+1555000\<close>; it has stored the record under the call UUID, under the
  caller's number and under the number without its plus sign, in this order; and a
  lookup of \<open>u1\<close> afterwards returns the record with SIP URI \<open>sip:x@y\<close> and phone
  number \<open>+1555000\<close>, as do the lookups of the two forms of the number.
\<close>

theorem inbound_end_to_end:
  assumes room: "create_daily_room env = Inr (Some room)"
      "map_of room ''url'' = Some ''https://r/x''" "map_of room ''name'' = Some ''x''"
    and token: "create_daily_token env ''x'' = Inr (Token (Some ''tok''))"
    and sip: "get_daily_sip_uri env ''x'' = Inr (Some ''sip:x@y'')"
    and form: "form req = Inr form_data"
    and fields: "form_data ''CallUUID'' = Some ''u1''" "form_data ''From'' = Some ''+1555000''"
      "form_data ''To'' = Some ''+1555999''"
  shows "\<exists>st'. handle_inbound_call env st req
                 = (Inr (PlainTextResponse (dial_xml ''+1555000'' ''sip:x@y'') ''application/xml''), st')
           \<and> call_to_sip_mapping st' =
               store_call_mapping
                 (store_call_mapping
                   (store_call_mapping (call_to_sip_mapping st)
                      ''u1'' ''sip:x@y'' (Some ''+1555000''))
                   ''+1555000'' ''sip:x@y'' (Some ''+1555000''))
                 ''1555000'' ''sip:x@y'' (Some ''+1555000'')
           \<and> get_call_mapping (call_to_sip_mapping st') (Some ''u1'')
               = Some \<lparr>sip_uri = ''sip:x@y'', phone_number = Some ''+1555000''\<rparr>
           \<and> get_call_mapping (call_to_sip_mapping st') (Some ''+1555000'')
               = Some \<lparr>sip_uri = ''sip:x@y'', phone_number = Some ''+1555000''\<rparr>
           \<and> get_call_mapping (call_to_sip_mapping st') (Some ''1555000'')
               = Some \<lparr>sip_uri = ''sip:x@y'', phone_number = Some ''+1555000''\<rparr>"
proof -
  from room have ne: "room \<noteq> []" by auto
  show ?thesis
    unfolding handle_inbound_call_def inbound_body_def Let_def
    using assms ne
    by (simp add: truthy_def py_or_def py_str_def lstrip_plus_def store_mapping_def log_effect_def
        start_bot_inbound_mapping get_store xml_response_def)
qed

text \<open>
  The statement in the concrete environment, from the empty state: the response with its
  document spelled out, and the state the run leaves.
\<close>

theorem inbound_end_to_end_witness:
  \<open>handle_inbound_call demo_env empty_state
      (form_request [(''CallUUID'', ''u1''), (''From'', ''+1555000''), (''To'', ''+1555999''),
                     (''CallStatus'', ''ringing'')])
     = (Inr (PlainTextResponse
          ''<?xml version="1.0" encoding="UTF-8"?>\<newline><Response>\<newline>    <Dial callerId="+1555000" timeout="30">\<newline>        <User>sip:x@y</User>\<newline>    </Dial>\<newline></Response>''
          ''application/xml''),
        \<lparr>call_to_sip_mapping =
           [(''u1'', \<lparr>sip_uri = ''sip:x@y'', phone_number = Some ''+1555000''\<rparr>),
            (''+1555000'', \<lparr>sip_uri = ''sip:x@y'', phone_number = Some ''+1555000''\<rparr>),
            (''1555000'', \<lparr>sip_uri = ''sip:x@y'', phone_number = Some ''+1555000''\<rparr>)],
         bot_procs = [4242],
         effects =
           [CreateRoom, CreateToken ''x'', GetSipUri ''x'',
            Store ''u1'', Store ''+1555000'', Store ''1555000'',
            OpenLog ''/srv/app/bot_x.log'',
            Popen [''/usr/bin/python3'', ''/srv/app/bot.py'', ''-u'', ''https://r/x'',
                   ''-t'', ''tok'', ''-n'', ''+1555000'', ''-s'', ''sip:x@y''],
            Sleep 2]\<rparr>)\<close>
  using inbound_end_to_end
      [of demo_env "[(''url'', ''https://r/x''), (''name'', ''x'')]"
          "form_request [(''CallUUID'', ''u1''), (''From'', ''+1555000''), (''To'', ''+1555999''),
                         (''CallStatus'', ''ringing'')]"
          "map_of [(''CallUUID'', ''u1''), (''From'', ''+1555000''), (''To'', ''+1555999''),
                   (''CallStatus'', ''ringing'')]"
          empty_state]
  by (simp add: handle_inbound_call_def inbound_body_def demo_env_def create_daily_room_def create_daily_token_def get_daily_sip_uri_def dict_get_def empty_state_def
      form_request_def truthy_def py_or_def py_str_def lstrip_plus_def store_mapping_def
      log_effect_def start_bot_inbound_def bot_args_def bot_path_def log_file_path_def
      os_path_join_def xml_response_def dial_xml_def xml_lines_def Let_def)

end
